theory Spec2Isabelle
  imports Complex_Main "HOL-Library.Finite_Map"
begin

section \<open>The Habitica plugin: settings lifecycle of \<open>src/main.ts\<close>\<close>

subsection \<open>Values, objects and the heap\<close>

text \<open>
  The settings object is an ordinary JavaScript object. What the host hands back from
  \<^verbatim>\<open>loadData()\<close> is parsed JSON, so a property can hold any JSON value, whatever the
  interface \<^verbatim>\<open>HabiticaPluginSettings\<close> declares. A JSON number is a finite double,
  hence a real; the plugin never inspects one. An object is a finite map from property
  names to values (the order of the properties is not observed by the plugin).
\<close>

datatype json =
    JNull
  | JBool bool
  | JNum real
  | JStr string
  | JArr "json list"
  | JObj "(string, json) fmap"

type_synonym object = "(string, json) fmap"

text \<open>
  Objects are shared by reference: \<^verbatim>\<open>DEFAULT_SETTINGS\<close> is a module-level object,
  \<^verbatim>\<open>this.settings\<close> is a reference to another one. The heap maps references to
  objects; \<open>fresh\<close> is the next unused reference.
\<close>

type_synonym ref = nat

datatype error =
    StorageFailure  \<comment> \<open>the promise of \<^verbatim>\<open>loadData\<close>/\<^verbatim>\<open>saveData\<close> was rejected\<close>
  | TypeError       \<comment> \<open>a property of \<^verbatim>\<open>undefined\<close> was read or written\<close>

text \<open>The calls the plugin makes into the host, in the order it makes them.\<close>

datatype host_call =
    ConsoleLog string
  | LoadData
  | SaveData "object option"
  | AddSettingTab
  | AddRibbonIcon string string
  | NewNotice string

record state =
  heap :: "ref \<Rightarrow> object"
  fresh :: ref
  settings :: "ref option"      \<comment> \<open>\<^verbatim>\<open>this.settings\<close>; \<open>None\<close> is \<^verbatim>\<open>undefined\<close>\<close>
  data :: "object option"       \<comment> \<open>what the host has stored; \<open>None\<close> when nothing was saved\<close>
  storage_down :: bool          \<comment> \<open>the storage backend fails at present\<close>
  calls :: "host_call list"

text \<open>An operation returns normally or throws; the state it leaves behind stays either way.\<close>

type_synonym 'a io = "state \<Rightarrow> (error + 'a) \<times> state"

subsection \<open>The module constant (lines 23-26)\<close>

definition DEFAULT_SETTINGS :: ref where
  "DEFAULT_SETTINGS = 0"

definition defaults :: object where
  "defaults = fmupd ''userId'' (JStr '''') (fmupd ''apiToken'' (JStr '''') fmempty)"

text \<open>
  The state once the module has been evaluated and the plugin object constructed:
  \<^verbatim>\<open>DEFAULT_SETTINGS\<close> is allocated, \<^verbatim>\<open>this.settings\<close> is still undefined. The host's
  stored data \<open>d\<close> and the health of its backend are whatever the host has.
\<close>

definition init :: "object option \<Rightarrow> bool \<Rightarrow> state" where
  "init d down =
     \<lparr> heap = (\<lambda>_. fmempty)(DEFAULT_SETTINGS := defaults),
       fresh = Suc DEFAULT_SETTINGS,
       settings = None,
       data = d,
       storage_down = down,
       calls = [] \<rparr>"

subsection \<open>The host\<close>

text \<open>
  Modelled from the spec: the persistence backend \<^verbatim>\<open>Plugin.loadData\<close> /
  \<^verbatim>\<open>Plugin.saveData\<close> belongs to the host (Obsidian), not to this repository. The spec
  gives it as \<^verbatim>\<open>loadData() -> mapping-or-empty\<close> and
  \<^verbatim>\<open>saveData(mapping) -> success-or-failure\<close>: a load yields the stored mapping, or
  nothing when nothing was stored; a save replaces what was stored; either may fail with a
  storage failure, and a failed save leaves the stored data as they were. Saving
  \<^verbatim>\<open>undefined\<close> has nothing to serialise and is taken as a failure.
\<close>

definition log_call :: "host_call \<Rightarrow> state \<Rightarrow> state" where
  "log_call c s = s\<lparr>calls := calls s @ [c]\<rparr>"

definition loadData :: "(object option) io" where
  "loadData s =
     (let s1 = log_call LoadData s
      in if storage_down s1 then (Inl StorageFailure, s1) else (Inr (data s1), s1))"

definition saveData :: "object option \<Rightarrow> unit io" where
  "saveData d s =
     (let s1 = log_call (SaveData d) s
      in if storage_down s1 \<or> d = None then (Inl StorageFailure, s1)
         else (Inr (), s1\<lparr>data := d\<rparr>))"

definition console_log :: "string \<Rightarrow> state \<Rightarrow> state" where
  "console_log msg s = log_call (ConsoleLog msg) s"

definition addSettingTab :: "state \<Rightarrow> state" where
  "addSettingTab s = log_call AddSettingTab s"

definition addRibbonIcon :: "string \<Rightarrow> string \<Rightarrow> state \<Rightarrow> state" where
  "addRibbonIcon icon title s = log_call (AddRibbonIcon icon title) s"

definition new_Notice :: "string \<Rightarrow> state \<Rightarrow> state" where
  "new_Notice msg s = log_call (NewNotice msg) s"

subsection \<open>The language: object literals, \<^verbatim>\<open>Object.assign\<close>, property access\<close>

text \<open>The literal \<^verbatim>\<open>{}\<close>: a new empty object.\<close>

definition new_object :: "state \<Rightarrow> ref \<times> state" where
  "new_object s =
     (fresh s, s\<lparr>heap := (heap s)(fresh s := fmempty), fresh := Suc (fresh s)\<rparr>)"

text \<open>
  \<^verbatim>\<open>Object.assign(target, ...sources)\<close> assigns every own property of every source
  to the target, the sources from left to right, so a later source wins; a source that
  is \<^verbatim>\<open>null\<close> or \<^verbatim>\<open>undefined\<close> is skipped. It mutates the target and no other object.
  The assignment \<^verbatim>\<open>target[key] = value\<close> creates or overwrites an own property for
  every key but \<^verbatim>\<open>__proto__\<close>: that one goes to the setter inherited from
  \<^verbatim>\<open>Object.prototype\<close> and leaves the target's own properties alone. (It can replace
  the target's prototype, which this plugin does not observe: the two fields it reads are
  own properties of the target by then, and the host serialises own properties only.)
\<close>

definition assign_from :: "object \<Rightarrow> object option \<Rightarrow> object" where
  "assign_from t src =
     (case src of None \<Rightarrow> t | Some ob \<Rightarrow> t ++\<^sub>f fmdrop ''__proto__'' ob)"

definition Object_assign :: "ref \<Rightarrow> object option list \<Rightarrow> state \<Rightarrow> state" where
  "Object_assign target sources s =
     s\<lparr>heap := (heap s)(target := foldl assign_from (heap s target) sources)\<rparr>"

text \<open>
  \<^verbatim>\<open>this.plugin.settings.apiToken = value\<close> (line 146) and
  \<^verbatim>\<open>this.plugin.settings.userId = value\<close> (line 157): the two fields of the
  interface \<^verbatim>\<open>HabiticaPluginSettings\<close> (lines 18-21) are the only properties the plugin
  assigns, and the value comes from a text input, so it is a string.
\<close>

datatype field = ApiToken | UserId

fun field_key :: "field \<Rightarrow> string" where
  "field_key ApiToken = ''apiToken''"
| "field_key UserId = ''userId''"

definition assign_property :: "field \<Rightarrow> string \<Rightarrow> unit io" where
  "assign_property f v s =
     (case settings s of
        None \<Rightarrow> (Inl TypeError, s)
      | Some a \<Rightarrow>
          (Inr (), s\<lparr>heap := (heap s)(a := fmupd (field_key f) (JStr v) (heap s a))\<rparr>))"

subsection \<open>\<^verbatim>\<open>HabiticaPlugin\<close> (lines 33-89)\<close>

text \<open>
  Line 83. The arguments are evaluated from left to right: the literal \<^verbatim>\<open>{}\<close> is
  allocated, then \<^verbatim>\<open>loadData()\<close> is awaited; when it is rejected the assignment to
  \<^verbatim>\<open>this.settings\<close> does not happen.
\<close>

definition loadSettings :: "unit io" where
  "loadSettings s =
     (let (t, s1) = new_object s;
          (r, s2) = loadData s1
      in case r of
           Inl e \<Rightarrow> (Inl e, s2)
         | Inr raw \<Rightarrow>
             (Inr (),
              (Object_assign t [Some (heap s2 DEFAULT_SETTINGS), raw] s2)
                \<lparr>settings := Some t\<rparr>))"

text \<open>Line 87: the host is handed the object \<^verbatim>\<open>this.settings\<close> refers to.\<close>

definition saveSettings :: "unit io" where
  "saveSettings s = saveData (map_option (heap s) (settings s)) s"

definition ribbon_callback :: "unit io" where
  "ribbon_callback s = (Inr (), new_Notice ''Syncing with Habitica...'' s)"

definition onload :: "unit io" where
  "onload s =
     (let s1 = console_log ''Loading Habitica Plugin'' s;
          (r, s2) = loadSettings s1
      in case r of
           Inl e \<Rightarrow> (Inl e, s2)
         | Inr _ \<Rightarrow>
             (Inr (), addRibbonIcon ''checkmark'' ''Sync with Habitica'' (addSettingTab s2)))"

definition onunload :: "unit io" where
  "onunload s = (Inr (), console_log ''Unloading Habitica Plugin'' s)"

subsection \<open>\<^verbatim>\<open>HabiticaSettingTab\<close> (lines 97-161)\<close>

text \<open>
  \<^verbatim>\<open>display()\<close> reads the two fields for the initial values of the text inputs; the
  rest of it draws widgets. The two change handlers assign the field and then save.
\<close>

definition display :: "(json option \<times> json option) io" where
  "display s =
     (case settings s of
        None \<Rightarrow> (Inl TypeError, s)
      | Some a \<Rightarrow>
          (Inr (fmlookup (heap s a) ''apiToken'', fmlookup (heap s a) ''userId''), s))"

definition apiToken_onChange :: "string \<Rightarrow> unit io" where
  "apiToken_onChange v s =
     (case assign_property ApiToken v s of
        (Inl e, s1) \<Rightarrow> (Inl e, s1)
      | (Inr _, s1) \<Rightarrow> saveSettings s1)"

definition userId_onChange :: "string \<Rightarrow> unit io" where
  "userId_onChange v s =
     (case assign_property UserId v s of
        (Inl e, s1) \<Rightarrow> (Inl e, s1)
      | (Inr _, s1) \<Rightarrow> saveSettings s1)"

subsection \<open>The operations of the settings store\<close>

text \<open>
  The store's \<open>update(field, value)\<close> is the first statement of a change handler, its
  \<open>persist()\<close> is \<^verbatim>\<open>saveSettings\<close>, its \<open>load()\<close> is \<^verbatim>\<open>loadSettings\<close>.
\<close>

definition update :: "field \<Rightarrow> string \<Rightarrow> unit io" where
  "update f v = assign_property f v"

text \<open>The change handler of a field.\<close>

definition onChange :: "field \<Rightarrow> string \<Rightarrow> unit io" where
  "onChange f v = (case f of ApiToken \<Rightarrow> apiToken_onChange v | UserId \<Rightarrow> userId_onChange v)"

text \<open>A sequence of updates; it stops at the first one that throws.\<close>

fun updates :: "(field \<times> string) list \<Rightarrow> unit io" where
  "updates [] s = (Inr (), s)"
| "updates ((f, v) # us) s =
     (case update f v s of
        (Inl e, s1) \<Rightarrow> (Inl e, s1)
      | (Inr _, s1) \<Rightarrow> updates us s1)"

text \<open>The object \<^verbatim>\<open>this.settings\<close> refers to, when it is defined.\<close>

definition settings_record :: "state \<Rightarrow> object option" where
  "settings_record s = map_option (heap s) (settings s)"

text \<open>Reading a property of an object that may be absent.\<close>

definition property_of :: "string \<Rightarrow> object option \<Rightarrow> json option" where
  "property_of k ob = (case ob of None \<Rightarrow> None | Some r \<Rightarrow> fmlookup r k)"

text \<open>The value a sequence of updates wrote last under a property name, if it wrote any.\<close>

fun last_written :: "string \<Rightarrow> (field \<times> string) list \<Rightarrow> string option" where
  "last_written k [] = None"
| "last_written k ((f, v) # us) =
     (case last_written k us of
        Some w \<Rightarrow> Some w
      | None \<Rightarrow> if field_key f = k then Some v else None)"

subsection \<open>Histories\<close>

text \<open>
  What can happen to a running plugin: the host calls a lifecycle method, the user edits
  a field or clicks the ribbon icon, the settings tab is drawn, the store's operations
  are called one by one, the backend starts or stops failing. An operation that throws
  leaves its state behind and the history goes on. Each operation runs to its end before
  the next event: the plugin suspends only while it awaits the host's storage, and the
  histories do not interleave another event there.
\<close>

datatype event =
    OnLoad
  | OnUnload
  | Load
  | Update field string
  | Persist
  | ChangeApiToken string
  | ChangeUserId string
  | Display
  | ClickRibbon
  | Backend bool

fun step :: "event \<Rightarrow> state \<Rightarrow> state" where
  "step OnLoad s = snd (onload s)"
| "step OnUnload s = snd (onunload s)"
| "step Load s = snd (loadSettings s)"
| "step (Update f v) s = snd (update f v s)"
| "step Persist s = snd (saveSettings s)"
| "step (ChangeApiToken v) s = snd (apiToken_onChange v s)"
| "step (ChangeUserId v) s = snd (userId_onChange v s)"
| "step Display s = snd (display s)"
| "step ClickRibbon s = snd (ribbon_callback s)"
| "step (Backend down) s = s\<lparr>storage_down := down\<rparr>"

definition run :: "event list \<Rightarrow> state \<Rightarrow> state" where
  "run evs s = foldl (\<lambda>s e. step e s) s evs"

text \<open>
  A state is well formed when \<^verbatim>\<open>DEFAULT_SETTINGS\<close> is allocated and holds the two
  defaults, and \<^verbatim>\<open>this.settings\<close>, when defined, refers to another allocated object,
  one that has both fields and no property of its own called \<^verbatim>\<open>__proto__\<close>.
\<close>

definition state_ok :: "state \<Rightarrow> bool" where
  "state_ok s =
     (heap s DEFAULT_SETTINGS = defaults \<and> DEFAULT_SETTINGS < fresh s \<and>
      (case settings s of
         None \<Rightarrow> True
       | Some a \<Rightarrow>
           a \<noteq> DEFAULT_SETTINGS \<and> a < fresh s \<and>
           ''apiToken'' |\<in>| fmdom (heap s a) \<and> ''userId'' |\<in>| fmdom (heap s a) \<and>
           ''__proto__'' |\<notin>| fmdom (heap s a)))"

text \<open>A fresh instance of the plugin over the storage a state leaves behind.\<close>

definition fresh_instance :: "state \<Rightarrow> state" where
  "fresh_instance s = init (data s) (storage_down s)"

section \<open>Properties\<close>

subsection \<open>What each operation does to the state\<close>

lemmas host_defs = log_call_def loadData_def saveData_def console_log_def addSettingTab_def
  addRibbonIcon_def new_Notice_def

lemmas eval_defs = init_def loadSettings_def new_object_def host_defs Object_assign_def
  assign_from_def Let_def DEFAULT_SETTINGS_def defaults_def update_def assign_property_def
  saveSettings_def settings_record_def fresh_instance_def property_of_def state_ok_def
  onload_def display_def

lemma assign_from_simps:
  "assign_from t None = t"
  "assign_from t (Some ob) = t ++\<^sub>f fmdrop ''__proto__'' ob"
  by (simp_all add: assign_from_def)

lemma defaults_lookup:
  "fmlookup defaults k =
     (if k = ''apiToken'' \<or> k = ''userId'' then Some (JStr '''') else None)"
  by (simp add: defaults_def)

lemma defaults_dom: "fmdom defaults = {|''apiToken'', ''userId''|}"
  by (auto simp: defaults_def)

lemma field_key_not_proto: "field_key f \<noteq> ''__proto__''" "''__proto__'' \<noteq> field_key f"
  by (cases f; simp)+

lemma fmdrop_proto_defaults: "fmdrop ''__proto__'' defaults = defaults"
  by (rule fmdrop_idle) (simp add: defaults_dom)

lemma fmadd_absorb:
  assumes "fmdom m |\<subseteq>| fmdom n"
  shows "m ++\<^sub>f n = n"
proof (rule fmap_ext)
  fix x
  show "fmlookup (m ++\<^sub>f n) x = fmlookup n x"
    using assms by (auto simp: fmdom_notD dest: fmdom_notI)
qed

lemma assign_from_defaults_absorb:
  assumes "''apiToken'' |\<in>| fmdom r" and "''userId'' |\<in>| fmdom r"
    and "''__proto__'' |\<notin>| fmdom r"
  shows "assign_from defaults (Some r) = r"
proof -
  have "fmdom defaults |\<subseteq>| fmdom r"
    using assms(1,2) by (auto simp: defaults_dom)
  then show ?thesis
    using assms(3) by (simp add: assign_from_simps fmdrop_idle fmadd_absorb)
qed

lemma loadSettings_success:
  assumes "state_ok s" and "\<not> storage_down s"
  shows "loadSettings s =
    (Inr (), s\<lparr>heap := (heap s)(fresh s := assign_from defaults (data s)),
               fresh := Suc (fresh s), calls := calls s @ [LoadData],
               settings := Some (fresh s)\<rparr>)"
  using assms
  by (auto simp: loadSettings_def new_object_def host_defs Object_assign_def state_ok_def
      assign_from_def fmdrop_proto_defaults Let_def split: option.splits)

lemma loadSettings_failure:
  assumes "storage_down s"
  shows "loadSettings s =
    (Inl StorageFailure, s\<lparr>heap := (heap s)(fresh s := fmempty),
               fresh := Suc (fresh s), calls := calls s @ [LoadData]\<rparr>)"
  using assms
  by (simp add: loadSettings_def new_object_def host_defs Let_def)

lemma saveSettings_success:
  assumes "settings s = Some a" and "\<not> storage_down s"
  shows "saveSettings s =
    (Inr (), s\<lparr>calls := calls s @ [SaveData (Some (heap s a))], data := Some (heap s a)\<rparr>)"
  using assms by (simp add: saveSettings_def host_defs Let_def)

lemma saveSettings_failure:
  assumes "storage_down s \<or> settings s = None"
  shows "saveSettings s =
    (Inl StorageFailure, s\<lparr>calls := calls s @ [SaveData (settings_record s)]\<rparr>)"
  using assms by (auto simp add: saveSettings_def host_defs Let_def settings_record_def)

lemma assign_property_defined:
  assumes "settings s = Some a"
  shows "assign_property f v s =
    (Inr (), s\<lparr>heap := (heap s)(a := fmupd (field_key f) (JStr v) (heap s a))\<rparr>)"
  using assms by (simp add: assign_property_def)

subsection \<open>Well-formed states stay well formed\<close>

lemma state_ok_init: "state_ok (init d down)"
  by (simp add: state_ok_def init_def DEFAULT_SETTINGS_def)

lemma state_ok_log_call: "state_ok s \<Longrightarrow> state_ok (log_call c s)"
  by (auto simp: log_call_def state_ok_def split: option.splits)

lemma state_ok_loadSettings: "state_ok s \<Longrightarrow> state_ok (snd (loadSettings s))"
proof (cases "storage_down s")
  case True
  assume "state_ok s"
  then show ?thesis
    using True by (auto simp: loadSettings_failure state_ok_def split: option.splits)
next
  case False
  assume ok: "state_ok s"
  have "fmdom (assign_from defaults (data s)) =
      (case data s of None \<Rightarrow> {||} | Some r \<Rightarrow> fmdom r |-| {|''__proto__''|})
        |\<union>| {|''apiToken'', ''userId''|}"
    by (auto simp: assign_from_def defaults_dom split: option.splits)
  then have "''apiToken'' |\<in>| fmdom (assign_from defaults (data s))"
    "''userId'' |\<in>| fmdom (assign_from defaults (data s))"
    "''__proto__'' |\<notin>| fmdom (assign_from defaults (data s))"
    by (auto split: option.splits)
  then show ?thesis
    using ok False by (simp add: loadSettings_success) (simp add: state_ok_def)
qed

lemma state_ok_assign_property: "state_ok s \<Longrightarrow> state_ok (snd (assign_property f v s))"
  by (auto simp: assign_property_def state_ok_def field_key_not_proto split: option.splits)

lemma state_ok_saveSettings: "state_ok s \<Longrightarrow> state_ok (snd (saveSettings s))"
  by (auto simp: saveSettings_def host_defs Let_def state_ok_def split: option.splits)

lemma state_ok_onload: "state_ok s \<Longrightarrow> state_ok (snd (onload s))"
  using state_ok_loadSettings [of "log_call (ConsoleLog ''Loading Habitica Plugin'') s"]
  by (auto simp: onload_def console_log_def addSettingTab_def addRibbonIcon_def Let_def
      state_ok_log_call split: prod.splits sum.splits)

lemma state_ok_onChange:
  "state_ok s \<Longrightarrow> state_ok (snd (apiToken_onChange v s))"
  "state_ok s \<Longrightarrow> state_ok (snd (userId_onChange v s))"
  using state_ok_assign_property [of s ApiToken v] state_ok_assign_property [of s UserId v]
    state_ok_saveSettings [of "snd (assign_property ApiToken v s)"]
    state_ok_saveSettings [of "snd (assign_property UserId v s)"]
  by (auto simp: apiToken_onChange_def userId_onChange_def split: prod.splits sum.splits)

lemma state_ok_step: "state_ok s \<Longrightarrow> state_ok (step e s)"
proof (cases e)
  case (Backend b)
  assume "state_ok s"
  then show ?thesis using Backend by (auto simp: state_ok_def split: option.splits)
next
  case Display
  assume "state_ok s"
  then show ?thesis using Display by (auto simp: display_def split: option.splits)
qed (simp_all add: state_ok_onload state_ok_loadSettings state_ok_saveSettings
      state_ok_onChange state_ok_assign_property update_def onunload_def
      ribbon_callback_def console_log_def new_Notice_def state_ok_log_call)

lemma state_ok_run: "state_ok s \<Longrightarrow> state_ok (run evs s)"
  unfolding run_def by (induction evs arbitrary: s) (simp_all add: state_ok_step)

subsection \<open>A sequence of updates\<close>

lemma last_written_proto: "last_written ''__proto__'' us = None"
  by (induction us) (auto simp: field_key_not_proto)

lemma updates_defined:
  assumes "settings s = Some a"
  shows "\<exists>s'. updates us s = (Inr (), s') \<and> settings s' = Some a \<and>
           (\<forall>k. fmlookup (heap s' a) k =
                  (case last_written k us of
                     Some v \<Rightarrow> Some (JStr v)
                   | None \<Rightarrow> fmlookup (heap s a) k)) \<and>
           (\<forall>b. b \<noteq> a \<longrightarrow> heap s' b = heap s b) \<and>
           fresh s' = fresh s \<and> data s' = data s \<and> storage_down s' = storage_down s \<and>
           calls s' = calls s"
  using assms
proof (induction us arbitrary: s)
  case Nil
  then show ?case by simp
next
  case (Cons u us)
  obtain f v where u: "u = (f, v)" by (cases u)
  let ?s1 = "s\<lparr>heap := (heap s)(a := fmupd (field_key f) (JStr v) (heap s a))\<rparr>"
  have first: "update f v s = (Inr (), ?s1)"
    using Cons.prems by (simp add: update_def assign_property_defined)
  have "settings ?s1 = Some a" using Cons.prems by simp
  from Cons.IH [OF this] obtain s' where s':
    "updates us ?s1 = (Inr (), s')" "settings s' = Some a"
    "\<forall>k. fmlookup (heap s' a) k =
        (case last_written k us of Some v \<Rightarrow> Some (JStr v) | None \<Rightarrow> fmlookup (heap ?s1 a) k)"
    "\<forall>b. b \<noteq> a \<longrightarrow> heap s' b = heap ?s1 b"
    "fresh s' = fresh ?s1" "data s' = data ?s1" "storage_down s' = storage_down ?s1"
    "calls s' = calls ?s1"
    by blast
  have "updates (u # us) s = (Inr (), s')"
    using first s'(1) by (simp add: u)
  moreover have "fmlookup (heap s' a) k =
      (case last_written k (u # us) of Some v \<Rightarrow> Some (JStr v) | None \<Rightarrow> fmlookup (heap s a) k)"
    for k
    using s'(3) by (auto simp: u split: option.splits)
  ultimately show ?case using s' by simp
qed

lemma updates_keep_fields:
  assumes "state_ok s" and "settings s = Some a" and "updates us s = (Inr u, s')"
  shows "''apiToken'' |\<in>| fmdom (heap s' a)" and "''userId'' |\<in>| fmdom (heap s' a)"
    and "''__proto__'' |\<notin>| fmdom (heap s' a)"
proof -
  from updates_defined [OF assms(2), of us] assms(3) have l:
    "fmlookup (heap s' a) k =
        (case last_written k us of Some v \<Rightarrow> Some (JStr v) | None \<Rightarrow> fmlookup (heap s a) k)"
    for k
    by auto
  have old: "''apiToken'' |\<in>| fmdom (heap s a)" "''userId'' |\<in>| fmdom (heap s a)"
    "''__proto__'' |\<notin>| fmdom (heap s a)"
    using assms(1,2) by (simp_all add: state_ok_def)
  have "fmlookup (heap s' a) k \<noteq> None" if "k |\<in>| fmdom (heap s a)" for k
    using l [of k] that by (cases "last_written k us") (auto dest: fmdom_notI)
  then show "''apiToken'' |\<in>| fmdom (heap s' a)" and "''userId'' |\<in>| fmdom (heap s' a)"
    using old(1,2) by (blast intro: fmdomI)+
  have "fmlookup (heap s' a) ''__proto__'' = None"
    using l [of "''__proto__''"] old(3) by (simp add: last_written_proto fmdom_notD)
  then show "''__proto__'' |\<notin>| fmdom (heap s' a)"
    by (rule fmdom_notI)
qed

section \<open>The claims\<close>

text \<open>
  Claim C1. Whatever mapping \<open>R\<close> the backend returns (it may be empty, or hold only one
  of the two fields), \<^verbatim>\<open>loadSettings\<close> succeeds and leaves a settings record in which a
  field missing in \<open>R\<close> is the empty string and a field present in \<open>R\<close> has \<open>R\<close>'s value.
\<close>

theorem load_fills_defaults:
  assumes "state_ok s" and "\<not> storage_down s" and "data s = Some R"
  shows "\<exists>s' rec. loadSettings s = (Inr (), s') \<and> settings_record s' = Some rec \<and>
           (\<forall>f. fmlookup rec (field_key f) =
                  (case fmlookup R (field_key f) of
                     None \<Rightarrow> Some (JStr '''')
                   | Some v \<Rightarrow> Some v))"
proof -
  let ?rec = "defaults ++\<^sub>f fmdrop ''__proto__'' R"
  have "fmlookup ?rec (field_key f) =
          (case fmlookup R (field_key f) of None \<Rightarrow> Some (JStr '''') | Some v \<Rightarrow> Some v)" for f
    by (cases f) (auto simp: defaults_lookup fmdom_notI split: option.splits)
  then show ?thesis
    using assms by (simp add: loadSettings_success settings_record_def assign_from_simps)
qed

theorem load_fills_defaults_witness:
  "\<exists>s' rec.
     loadSettings (init (Some (fmupd ''apiToken'' (JStr ''abc'') fmempty)) False) = (Inr (), s') \<and>
     settings_record s' = Some rec \<and>
     fmlookup rec ''apiToken'' = Some (JStr ''abc'') \<and>
     fmlookup rec ''userId'' = Some (JStr '''')"
proof -
  let ?R = "fmupd ''apiToken'' (JStr ''abc'') fmempty"
  have "state_ok (init (Some ?R) False)" "\<not> storage_down (init (Some ?R) False)"
    "data (init (Some ?R) False) = Some ?R"
    by (simp_all add: eval_defs)
  from load_fills_defaults [OF this] obtain s' rec where
    l: "loadSettings (init (Some ?R) False) = (Inr (), s')" "settings_record s' = Some rec"
    and f: "\<And>f. fmlookup rec (field_key f) =
      (case fmlookup ?R (field_key f) of None \<Rightarrow> Some (JStr '''') | Some v \<Rightarrow> Some v)"
    by blast
  from f [of ApiToken] f [of UserId] l show ?thesis by simp
qed

text \<open>
  Claim C2. Round trip: from a loaded record, after any sequence of updates, a save
  followed by a load on a fresh instance of the plugin (over the storage the save wrote)
  gives a record equal to the one that was saved.
\<close>

theorem persist_load_roundtrip:
  assumes "state_ok s" and "settings s = Some a" and "\<not> storage_down s"
  shows "\<exists>s1 s2 s3 rec.
           updates us s = (Inr (), s1) \<and> saveSettings s1 = (Inr (), s2) \<and>
           loadSettings (fresh_instance s2) = (Inr (), s3) \<and>
           settings_record s1 = Some rec \<and> settings_record s3 = Some rec"
proof -
  from updates_defined [OF assms(2), of us] obtain s1 where s1:
    "updates us s = (Inr (), s1)" "settings s1 = Some a" "storage_down s1 = storage_down s"
    by blast
  let ?rec = "heap s1 a"
  let ?s2 = "s1\<lparr>calls := calls s1 @ [SaveData (Some ?rec)], data := Some ?rec\<rparr>"
  let ?i = "init (Some ?rec) False"
  have save: "saveSettings s1 = (Inr (), ?s2)"
    using s1(2,3) assms(3) by (simp add: saveSettings_success)
  have inst: "fresh_instance ?s2 = ?i"
    using s1(3) assms(3) by (simp add: fresh_instance_def)
  have "assign_from defaults (data ?i) = ?rec"
    using updates_keep_fields [OF assms(1,2) s1(1)]
    by (simp add: init_def assign_from_defaults_absorb)
  then have "loadSettings ?i =
      (Inr (), ?i\<lparr>heap := (heap ?i)(fresh ?i := ?rec), fresh := Suc (fresh ?i),
                  calls := calls ?i @ [LoadData], settings := Some (fresh ?i)\<rparr>)"
    using loadSettings_success [OF state_ok_init, of "Some ?rec" False]
    by (simp add: init_def)
  then obtain s3 where s3: "loadSettings (fresh_instance ?s2) = (Inr (), s3)"
    "settings_record s3 = Some ?rec"
    unfolding inst by (simp add: settings_record_def)
  have "settings_record s1 = Some ?rec" using s1(2) by (simp add: settings_record_def)
  with s1(1) save s3 show ?thesis by blast
qed

theorem persist_load_roundtrip_witness:
  "\<exists>s1 s2 s3.
     updates [(ApiToken, ''xyz'')] (snd (loadSettings (init None False))) = (Inr (), s1) \<and>
     saveSettings s1 = (Inr (), s2) \<and>
     loadSettings (fresh_instance s2) = (Inr (), s3) \<and>
     property_of ''apiToken'' (settings_record s3) = Some (JStr ''xyz'') \<and>
     property_of ''userId'' (settings_record s3) = Some (JStr '''')"
proof -
  let ?s = "snd (loadSettings (init None False))"
  have "state_ok ?s" "settings ?s = Some 1" "\<not> storage_down ?s"
    by (simp_all add: eval_defs)
  from persist_load_roundtrip [OF this, of "[(ApiToken, ''xyz'')]"]
  obtain s1 s2 s3 rec where r:
    "updates [(ApiToken, ''xyz'')] ?s = (Inr (), s1)" "saveSettings s1 = (Inr (), s2)"
    "loadSettings (fresh_instance s2) = (Inr (), s3)"
    "settings_record s1 = Some rec" "settings_record s3 = Some rec"
    by blast
  from r(1) have "s1 = snd (updates [(ApiToken, ''xyz'')] ?s)" by simp
  then have "property_of ''apiToken'' (settings_record s1) = Some (JStr ''xyz'')"
    "property_of ''userId'' (settings_record s1) = Some (JStr '''')"
    by (simp_all add: eval_defs)
  with r show ?thesis by auto
qed

text \<open>
  Claim C3, as the code has it. \<^verbatim>\<open>loadSettings\<close> does not ignore the extra fields of
  \<open>R\<close>: \<^verbatim>\<open>Object.assign\<close> copies every field of \<open>R\<close> into the record (all but one
  called \<^verbatim>\<open>__proto__\<close>), so the record has the fields of \<open>R\<close> besides the two of the
  defaults, each field of \<open>R\<close> with \<open>R\<close>'s value, and a save that follows writes the
  whole record, extra fields included, to the storage.
\<close>

theorem load_keeps_extra_fields:
  assumes "state_ok s" and "\<not> storage_down s" and "data s = Some R"
  shows "\<exists>s1 s2 rec.
           loadSettings s = (Inr (), s1) \<and> settings_record s1 = Some rec \<and>
           fmdom rec = (fmdom R |-| {|''__proto__''|}) |\<union>| {|''apiToken'', ''userId''|} \<and>
           (\<forall>k. k |\<in>| fmdom R \<and> k \<noteq> ''__proto__'' \<longrightarrow> fmlookup rec k = fmlookup R k) \<and>
           saveSettings s1 = (Inr (), s2) \<and> data s2 = Some rec"
proof -
  let ?rec = "defaults ++\<^sub>f fmdrop ''__proto__'' R"
  let ?s1 = "s\<lparr>heap := (heap s)(fresh s := ?rec), fresh := Suc (fresh s),
               calls := calls s @ [LoadData], settings := Some (fresh s)\<rparr>"
  have load: "loadSettings s = (Inr (), ?s1)"
    using assms by (simp add: loadSettings_success assign_from_simps)
  have "saveSettings ?s1 =
      (Inr (), ?s1\<lparr>calls := calls ?s1 @ [SaveData (Some (heap ?s1 (fresh s)))],
                   data := Some (heap ?s1 (fresh s))\<rparr>)"
    using assms(2) by (intro saveSettings_success) simp_all
  then obtain s2 where "saveSettings ?s1 = (Inr (), s2)" "data s2 = Some ?rec"
    by simp
  moreover have "settings_record ?s1 = Some ?rec" by (simp add: settings_record_def)
  moreover have "fmdom ?rec = (fmdom R |-| {|''__proto__''|}) |\<union>| {|''apiToken'', ''userId''|}"
    by (auto simp: defaults_dom)
  moreover have "\<forall>k. k |\<in>| fmdom R \<and> k \<noteq> ''__proto__'' \<longrightarrow> fmlookup ?rec k = fmlookup R k"
    by simp
  ultimately show ?thesis using load by blast
qed

theorem load_keeps_extra_fields_witness:
  "\<exists>s1 s2 rec.
     loadSettings
       (init (Some (fmupd ''theme'' (JStr ''dark'') (fmupd ''apiToken'' (JStr ''abc'') fmempty)))
          False) = (Inr (), s1) \<and>
     settings_record s1 = Some rec \<and>
     fmlookup rec ''theme'' = Some (JStr ''dark'') \<and>
     saveSettings s1 = (Inr (), s2) \<and> data s2 = Some rec"
proof -
  let ?R = "fmupd ''theme'' (JStr ''dark'') (fmupd ''apiToken'' (JStr ''abc'') fmempty)"
  have "state_ok (init (Some ?R) False)" "\<not> storage_down (init (Some ?R) False)"
    "data (init (Some ?R) False) = Some ?R"
    by (simp_all add: eval_defs)
  from load_keeps_extra_fields [OF this] obtain s1 s2 rec where r:
    "loadSettings (init (Some ?R) False) = (Inr (), s1)" "settings_record s1 = Some rec"
    "fmdom rec = (fmdom ?R |-| {|''__proto__''|}) |\<union>| {|''apiToken'', ''userId''|}"
    "\<forall>k. k |\<in>| fmdom ?R \<and> k \<noteq> ''__proto__'' \<longrightarrow> fmlookup rec k = fmlookup ?R k"
    "saveSettings s1 = (Inr (), s2)" "data s2 = Some rec"
    by (elim exE conjE)
  have "fmlookup rec ''theme'' = Some (JStr ''dark'')"
    using r(4) [rule_format, of "''theme''"] by simp
  with r(1,2,5,6) show ?thesis by (intro exI conjI)
qed

text \<open>
  As the spec words it the claim fails: when the stored mapping has a field \<^verbatim>\<open>theme\<close>,
  the record has it after the load, and so have the stored data after the save that
  follows.
\<close>

theorem load_ignores_extra_fields_counterexample:
  "property_of ''theme''
     (settings_record (snd (loadSettings
        (init (Some (fmupd ''theme'' (JStr ''dark'') (fmupd ''apiToken'' (JStr ''abc'') fmempty)))
           False)))) = Some (JStr ''dark'') \<and>
   property_of ''theme''
     (data (snd (saveSettings (snd (loadSettings
        (init (Some (fmupd ''theme'' (JStr ''dark'') (fmupd ''apiToken'' (JStr ''abc'') fmempty)))
           False)))))) = Some (JStr ''dark'')"
  by (simp add: eval_defs)

text \<open>
  Claim C4. After any sequence of updates the record holds, for each field, the value
  written last; a property that no update named keeps its value; and the updates neither
  change what is stored nor call the host: saving is a separate operation.
\<close>

theorem updates_last_write_wins:
  assumes "settings s = Some a"
  shows "\<exists>s'. updates us s = (Inr (), s') \<and> settings s' = Some a \<and>
           (\<forall>k. fmlookup (heap s' a) k =
                  (case last_written k us of
                     Some v \<Rightarrow> Some (JStr v)
                   | None \<Rightarrow> fmlookup (heap s a) k)) \<and>
           data s' = data s \<and> calls s' = calls s"
  using updates_defined [OF assms, of us] by blast

theorem updates_last_write_wins_witness:
  "\<exists>s'. updates [(ApiToken, ''a''), (UserId, ''u''), (ApiToken, ''b'')]
            (snd (loadSettings (init None False))) = (Inr (), s') \<and>
        property_of ''apiToken'' (settings_record s') = Some (JStr ''b'') \<and>
        property_of ''userId'' (settings_record s') = Some (JStr ''u'') \<and>
        data s' = None \<and> calls s' = [LoadData]"
proof -
  let ?s = "snd (loadSettings (init None False))"
  let ?us = "[(ApiToken, ''a''), (UserId, ''u''), (ApiToken, ''b'')]"
  have s: "settings ?s = Some 1" by (simp add: eval_defs)
  from updates_last_write_wins [OF s, of ?us] obtain s' where r:
    "updates ?us ?s = (Inr (), s')" "settings s' = Some 1"
    "\<And>k. fmlookup (heap s' 1) k =
       (case last_written k ?us of Some v \<Rightarrow> Some (JStr v) | None \<Rightarrow> fmlookup (heap ?s 1) k)"
    "data s' = data ?s" "calls s' = calls ?s"
    by blast
  from r(3) [of "''apiToken''"] r(3) [of "''userId''"] r(1,2,4,5)
  show ?thesis by (simp add: eval_defs)
qed

text \<open>
  Claim C5. When the backend fails during the save, \<^verbatim>\<open>saveSettings\<close> throws the
  storage failure it got: the save is attempted once, nothing is caught or retried, the
  change handler throws the same failure, what is stored stays as it was, and the record
  in memory still holds the value the update wrote.
\<close>

theorem failed_persist_propagates:
  assumes "settings s = Some a" and "storage_down s"
  shows "\<exists>s1 s2.
           update f v s = (Inr (), s1) \<and>
           saveSettings s1 = (Inl StorageFailure, s2) \<and>
           onChange f v s = (Inl StorageFailure, s2) \<and>
           settings s2 = Some a \<and>
           fmlookup (heap s2 a) (field_key f) = Some (JStr v) \<and>
           heap s2 = heap s1 \<and> data s2 = data s \<and>
           calls s2 = calls s @ [SaveData (Some (heap s1 a))]"
proof -
  let ?s1 = "s\<lparr>heap := (heap s)(a := fmupd (field_key f) (JStr v) (heap s a))\<rparr>"
  let ?s2 = "?s1\<lparr>calls := calls ?s1 @ [SaveData (settings_record ?s1)]\<rparr>"
  have upd: "assign_property f v s = (Inr (), ?s1)"
    using assms(1) by (rule assign_property_defined)
  have save: "saveSettings ?s1 = (Inl StorageFailure, ?s2)"
    using assms(2) by (intro saveSettings_failure) simp
  have "onChange f v s = (Inl StorageFailure, ?s2)"
    using upd save
    by (cases f) (simp_all add: onChange_def apiToken_onChange_def userId_onChange_def)
  with upd save show ?thesis
    using assms(1) by (simp add: update_def settings_record_def)
qed

theorem failed_persist_propagates_witness:
  "\<exists>s2. onChange ApiToken ''xyz''
            ((snd (loadSettings (init None False)))\<lparr>storage_down := True\<rparr>)
          = (Inl StorageFailure, s2) \<and>
        property_of ''apiToken'' (settings_record s2) = Some (JStr ''xyz'') \<and>
        data s2 = None"
proof -
  let ?s = "(snd (loadSettings (init None False)))\<lparr>storage_down := True\<rparr>"
  have "settings ?s = Some 1" "storage_down ?s" by (simp_all add: eval_defs)
  from failed_persist_propagates [OF this, of ApiToken "''xyz''"]
  obtain s1 s2 where r: "onChange ApiToken ''xyz'' ?s = (Inl StorageFailure, s2)"
    "settings s2 = Some 1" "fmlookup (heap s2 1) (field_key ApiToken) = Some (JStr ''xyz'')"
    "data s2 = data ?s"
    by (elim exE conjE)
  have "data ?s = None" by (simp add: eval_defs)
  with r show ?thesis by (simp add: property_of_def settings_record_def)
qed

text \<open>
  Claim C6. When there are no prior data (the backend returns nothing at all, or an empty
  mapping) \<^verbatim>\<open>loadSettings\<close> does not fail, and the record it leaves is the defaults:
  both fields the empty string.
\<close>

theorem load_without_prior_data:
  assumes "state_ok s" and "\<not> storage_down s"
    and "data s = None \<or> data s = Some fmempty"
  shows "\<exists>s'. loadSettings s = (Inr (), s') \<and> settings_record s' = Some defaults"
  using assms
  by (auto simp: loadSettings_success settings_record_def assign_from_simps)

theorem load_without_prior_data_witness:
  "(\<exists>s'. loadSettings (init None False) = (Inr (), s') \<and> settings_record s' = Some defaults) \<and>
   (\<exists>s'. loadSettings (init (Some fmempty) False) = (Inr (), s') \<and>
         settings_record s' = Some defaults) \<and>
   defaults = fmupd ''userId'' (JStr '''') (fmupd ''apiToken'' (JStr '''') fmempty)"
  using load_without_prior_data [of "init None False"]
    load_without_prior_data [of "init (Some fmempty) False"]
  by (simp add: state_ok_init defaults_def) (simp add: init_def)

text \<open>
  Claim C7. Loading twice while the stored data do not change gives equal records: when
  a load has succeeded, a second one succeeds too and leaves a record equal to the first.
\<close>

theorem load_idempotent:
  assumes "state_ok s" and "loadSettings s = (Inr u, s1)"
  shows "\<exists>s2 rec. loadSettings s1 = (Inr (), s2) \<and> data s1 = data s \<and>
           settings_record s1 = Some rec \<and> settings_record s2 = Some rec"
proof -
  have up: "\<not> storage_down s"
    using assms(2) by (auto simp: loadSettings_failure)
  let ?rec = "assign_from defaults (data s)"
  have s1: "s1 = s\<lparr>heap := (heap s)(fresh s := ?rec), fresh := Suc (fresh s),
               calls := calls s @ [LoadData], settings := Some (fresh s)\<rparr>"
    using assms up by (simp add: loadSettings_success)
  have ok1: "state_ok s1"
    using state_ok_loadSettings [OF assms(1)] assms(2) by simp
  have up1: "\<not> storage_down s1" and d1: "data s1 = data s"
    using up by (simp_all add: s1)
  show ?thesis
    using loadSettings_success [OF ok1 up1] d1
    by (simp add: settings_record_def) (simp add: s1)
qed

theorem load_idempotent_witness:
  "\<exists>s2 rec.
     loadSettings (snd (loadSettings (init (Some (fmupd ''apiToken'' (JStr ''abc'') fmempty)) False)))
       = (Inr (), s2) \<and>
     settings_record (snd (loadSettings (init (Some (fmupd ''apiToken'' (JStr ''abc'') fmempty)) False)))
       = Some rec \<and>
     settings_record s2 = Some rec"
proof -
  let ?s = "init (Some (fmupd ''apiToken'' (JStr ''abc'') fmempty)) False"
  have "\<not> storage_down ?s" by (simp add: init_def)
  then have "loadSettings ?s = (Inr (), snd (loadSettings ?s))"
    by (simp add: loadSettings_success state_ok_init)
  from load_idempotent [OF state_ok_init this]
  obtain s2 rec where "loadSettings (snd (loadSettings ?s)) = (Inr (), s2)"
    "settings_record (snd (loadSettings ?s)) = Some rec" "settings_record s2 = Some rec"
    by (elim exE conjE)
  then show ?thesis by (intro exI conjI)
qed

text \<open>
  Claim C8. In \<^verbatim>\<open>onload\<close> the load of the settings is over before the settings tab and
  the ribbon icon are registered: when the backend answers, the calls into the host are
  the log line, the load, the registration of the tab, the registration of the icon, in
  this order, and in the state the tab is registered in, \<^verbatim>\<open>display\<close> reads a value for
  each of the two fields. When the load fails, \<^verbatim>\<open>onload\<close> throws the failure and
  registers nothing.
\<close>

theorem onload_loads_before_registering:
  assumes "state_ok s"
  shows "(\<not> storage_down s \<longrightarrow>
           (\<exists>s1 x y.
              loadSettings (console_log ''Loading Habitica Plugin'' s) = (Inr (), s1) \<and>
              display s1 = (Inr (Some x, Some y), s1) \<and>
              onload s =
                (Inr (), addRibbonIcon ''checkmark'' ''Sync with Habitica'' (addSettingTab s1)) \<and>
              calls (snd (onload s)) =
                calls s @ [ConsoleLog ''Loading Habitica Plugin'', LoadData, AddSettingTab,
                           AddRibbonIcon ''checkmark'' ''Sync with Habitica''])) \<and>
         (storage_down s \<longrightarrow>
            fst (onload s) = Inl StorageFailure \<and>
            settings (snd (onload s)) = settings s \<and>
            calls (snd (onload s)) =
              calls s @ [ConsoleLog ''Loading Habitica Plugin'', LoadData])"
proof (intro conjI impI)
  let ?s0 = "console_log ''Loading Habitica Plugin'' s"
  assume up: "\<not> storage_down s"
  have ok0: "state_ok ?s0"
    using assms by (simp add: console_log_def state_ok_log_call)
  have up0: "\<not> storage_down ?s0"
    using up by (simp add: console_log_def log_call_def)
  obtain s1 where load: "loadSettings ?s0 = (Inr (), s1)"
    using loadSettings_success [OF ok0 up0] by simp
  have ok1: "state_ok s1"
    using state_ok_loadSettings [OF ok0] load by simp
  have "settings s1 \<noteq> None"
    using loadSettings_success [OF ok0 up0] load by auto
  then obtain a where a: "settings s1 = Some a" by blast
  with ok1 have "''apiToken'' |\<in>| fmdom (heap s1 a)" "''userId'' |\<in>| fmdom (heap s1 a)"
    by (simp_all add: state_ok_def)
  then obtain x y where "fmlookup (heap s1 a) ''apiToken'' = Some x"
    "fmlookup (heap s1 a) ''userId'' = Some y"
    by (meson fmlookup_dom_iff)
  then have disp: "display s1 = (Inr (Some x, Some y), s1)"
    using a by (simp add: display_def)
  have on: "onload s =
      (Inr (), addRibbonIcon ''checkmark'' ''Sync with Habitica'' (addSettingTab s1))"
    using load by (simp add: onload_def)
  have "calls s1 = calls s @ [ConsoleLog ''Loading Habitica Plugin'', LoadData]"
    using loadSettings_success [OF ok0 up0] load
    by (auto simp: console_log_def log_call_def)
  then have "calls (snd (onload s)) =
      calls s @ [ConsoleLog ''Loading Habitica Plugin'', LoadData, AddSettingTab,
                 AddRibbonIcon ''checkmark'' ''Sync with Habitica'']"
    by (simp add: on addRibbonIcon_def addSettingTab_def log_call_def)
  with load disp on
  show "\<exists>s1 x y.
      loadSettings ?s0 = (Inr (), s1) \<and>
      display s1 = (Inr (Some x, Some y), s1) \<and>
      onload s =
        (Inr (), addRibbonIcon ''checkmark'' ''Sync with Habitica'' (addSettingTab s1)) \<and>
      calls (snd (onload s)) =
        calls s @ [ConsoleLog ''Loading Habitica Plugin'', LoadData, AddSettingTab,
                   AddRibbonIcon ''checkmark'' ''Sync with Habitica'']"
    by blast
next
  let ?s0 = "console_log ''Loading Habitica Plugin'' s"
  assume down: "storage_down s"
  then have "storage_down ?s0" by (simp add: console_log_def log_call_def)
  from loadSettings_failure [OF this]
  have on: "onload s = (Inl StorageFailure,
      ?s0\<lparr>heap := (heap ?s0)(fresh ?s0 := fmempty), fresh := Suc (fresh ?s0),
          calls := calls ?s0 @ [LoadData]\<rparr>)"
    by (simp add: onload_def)
  show "fst (onload s) = Inl StorageFailure" by (simp add: on)
  show "settings (snd (onload s)) = settings s"
    by (simp add: on console_log_def log_call_def)
  show "calls (snd (onload s)) = calls s @ [ConsoleLog ''Loading Habitica Plugin'', LoadData]"
    by (simp add: on console_log_def log_call_def)
qed

theorem onload_loads_before_registering_witness:
  "fst (onload (init None False)) = Inr () \<and>
   fst (display (snd (onload (init None False)))) = Inr (Some (JStr ''''), Some (JStr '''')) \<and>
   calls (snd (onload (init None False))) =
     [ConsoleLog ''Loading Habitica Plugin'', LoadData, AddSettingTab,
      AddRibbonIcon ''checkmark'' ''Sync with Habitica''] \<and>
   fst (onload (init None True)) = Inl StorageFailure \<and>
   calls (snd (onload (init None True))) = [ConsoleLog ''Loading Habitica Plugin'', LoadData]"
  using onload_loads_before_registering [OF state_ok_init, of None False]
    onload_loads_before_registering [OF state_ok_init, of None True]
  by (simp add: eval_defs)

text \<open>
  Claim C9. The callback of the ribbon icon returns normally, shows one notice and does
  nothing else: the heap, \<^verbatim>\<open>this.settings\<close>, the stored data and the backend are as
  they were, and the notice is the only call it makes into the host.
\<close>

theorem ribbon_callback_only_notifies:
  "fst (ribbon_callback s) = Inr () \<and>
   calls (snd (ribbon_callback s)) = calls s @ [NewNotice ''Syncing with Habitica...''] \<and>
   heap (snd (ribbon_callback s)) = heap s \<and>
   fresh (snd (ribbon_callback s)) = fresh s \<and>
   settings (snd (ribbon_callback s)) = settings s \<and>
   data (snd (ribbon_callback s)) = data s \<and>
   storage_down (snd (ribbon_callback s)) = storage_down s"
  by (simp add: ribbon_callback_def new_Notice_def log_call_def)

text \<open>
  Claim C10. No history of the plugin changes \<^verbatim>\<open>DEFAULT_SETTINGS\<close>: whatever the
  lifecycle calls, loads, updates, saves, edits and clicks, and whenever the backend
  fails, the object still holds the two defaults, and \<^verbatim>\<open>this.settings\<close> never refers
  to it (a load allocates a new object, the updates write to that one).
\<close>

theorem defaults_never_mutated:
  "heap (run evs (init d down)) DEFAULT_SETTINGS = defaults \<and>
   settings (run evs (init d down)) \<noteq> Some DEFAULT_SETTINGS"
  using state_ok_run [OF state_ok_init, of evs d down]
  by (auto simp: state_ok_def)

theorem defaults_never_mutated_witness:
  "heap (run [OnLoad, ChangeApiToken ''xyz'', Backend True, ChangeUserId ''u1'', Load,
              Backend False, Persist, ClickRibbon, OnUnload]
           (init (Some (fmupd ''apiToken'' (JStr ''abc'') fmempty)) False)) DEFAULT_SETTINGS
     = fmupd ''userId'' (JStr '''') (fmupd ''apiToken'' (JStr '''') fmempty)"
  using defaults_never_mutated
    [of "[OnLoad, ChangeApiToken ''xyz'', Backend True, ChangeUserId ''u1'', Load,
          Backend False, Persist, ClickRibbon, OnUnload]"
        "Some (fmupd ''apiToken'' (JStr ''abc'') fmempty)" False]
  by (simp add: defaults_def)

end
